theory Spec2Isabelle
  imports Complex_Main "HOL-Library.Log_Nat"
begin

section \<open>JavaScript values\<close>

subsection \<open>Numbers\<close>

text \<open>
  An amount is a JavaScript number, an IEEE 754 double: not-a-number, an infinity, or a
  finite value, kept as the rational it denotes. The two zeros are one value here: the
  code reads an amount as \<open>r.amount || 0\<close>, which is \<open>0\<close> for both, and a sum that starts
  from \<open>0\<close> is never the negative zero. Counters, the period in days and status codes are
  whole numbers that the code only compares or changes by one; they are \<open>int\<close> and \<open>nat\<close>.
\<close>

datatype number = NaN | PosInf | NegInf | Finite rat

text \<open>\<open>pow2 k\<close> is two to the power \<open>k\<close>, for any integer \<open>k\<close>.\<close>

definition pow2 :: "int \<Rightarrow> rat" where
  "pow2 k = (if 0 \<le> k then 2 ^ nat k else 1 / 2 ^ nat (- k))"

text \<open>
  For a positive rational \<open>q\<close>, \<open>ilog2 q\<close> is the exponent \<open>e\<close> with
  \<open>pow2 e \<le> q < pow2 (e + 1)\<close>: with numerator and denominator of bit lengths \<open>bp\<close>
  and \<open>bd\<close>, \<open>q\<close> lies between \<open>pow2 (bp - bd - 1)\<close> and \<open>pow2 (bp - bd + 1)\<close>.
\<close>

definition ilog2 :: "rat \<Rightarrow> int" where
  "ilog2 q = (let (p, d) = quotient_of q; a = bitlen p - bitlen d
              in if pow2 a \<le> q then a else a - 1)"

text \<open>Rounding to the nearest integer, a tie to the even one.\<close>

definition half_even :: "rat \<Rightarrow> int" where
  "half_even n = (let f = \<lfloor>n\<rfloor>; r = n - of_int f
                  in if r < 1 / 2 then f else if 1 / 2 < r then f + 1
                     else if even f then f else f + 1)"

text \<open>
  The double nearest to a rational (round to nearest, ties to even): 53 significant bits,
  the spacing of the subnormal numbers below \<open>pow2 (- 1022)\<close>, and an infinity when the
  rounded value reaches \<open>pow2 1024\<close>.
\<close>

definition dround :: "rat \<Rightarrow> number" where
  "dround q =
     (if q = 0 then Finite 0
      else let ulp = pow2 (max (ilog2 \<bar>q\<bar>) (- 1022) - 52);
               r = of_int (half_even (q / ulp)) * ulp
           in if pow2 1024 \<le> \<bar>r\<bar> then (if 0 < q then PosInf else NegInf) else Finite r)"

definition is_double :: "rat \<Rightarrow> bool" where
  "is_double q = (dround q = Finite q)"

text \<open>\<open>a + b\<close> on numbers.\<close>

fun dadd :: "number \<Rightarrow> number \<Rightarrow> number" where
  "dadd (Finite a) (Finite b) = dround (a + b)"
| "dadd NaN _ = NaN"
| "dadd _ NaN = NaN"
| "dadd PosInf NegInf = NaN"
| "dadd NegInf PosInf = NaN"
| "dadd PosInf _ = PosInf"
| "dadd NegInf _ = NegInf"
| "dadd _ PosInf = PosInf"
| "dadd _ NegInf = NegInf"

text \<open>\<open>Math.abs\<close>, the comparisons with zero, and the truthiness of a number.\<close>

fun dabs :: "number \<Rightarrow> number" where
  "dabs (Finite a) = Finite \<bar>a\<bar>"
| "dabs NaN = NaN"
| "dabs PosInf = PosInf"
| "dabs NegInf = PosInf"

fun positive :: "number \<Rightarrow> bool" where
  "positive (Finite a) = (0 < a)"
| "positive PosInf = True"
| "positive _ = False"

fun negative :: "number \<Rightarrow> bool" where
  "negative (Finite a) = (a < 0)"
| "negative NegInf = True"
| "negative _ = False"

fun truthy :: "number \<Rightarrow> bool" where
  "truthy (Finite a) = (a \<noteq> 0)"
| "truthy NaN = False"
| "truthy _ = True"

text \<open>A whole number as a number.\<close>

definition whole :: "int \<Rightarrow> number" where
  "whole k = Finite (of_int k)"

subsection \<open>Strings and thrown values\<close>

text \<open>
  Strings are \<open>string\<close>. A value of type \<open>string | null\<close> (or an absent JSON field) is a
  \<open>string option\<close>. \<open>js_or v d\<close> is \<open>v || d\<close> for an optional string: \<open>null\<close>,
  \<open>undefined\<close> and the empty string are falsy.
\<close>

definition js_or :: "string option \<Rightarrow> string \<Rightarrow> string" where
  "js_or v d = (case v of None \<Rightarrow> d | Some s \<Rightarrow> if s = [] then d else s)"

text \<open>
  What a thrown value carries: \<open>Error msg\<close> is \<open>new Error(msg)\<close>; \<open>SyntaxError\<close>
  is the rejection of \<open>res.json()\<close> on a body that is not JSON; \<open>TypeError\<close> is what
  reading a property of \<open>null\<close> throws.
\<close>

datatype exn = Error string | SyntaxError | TypeError

text \<open>
  A JSON value as the code uses the \<open>detail\<close> of an error body: a string, or any other
  value, of which \<open>x || d\<close> reads the truthiness and \<open>new Error(x)\<close> the text that
  \<open>String(x)\<close> gives. \<open>detail_or v d\<close> is the message of \<open>new Error(v || d)\<close>, where
  \<open>None\<close> is an absent field.
\<close>

datatype jsvalue = Str string | Other bool string

definition detail_or :: "jsvalue option \<Rightarrow> string \<Rightarrow> string" where
  "detail_or v d =
     (case v of
        None \<Rightarrow> d
      | Some (Str s) \<Rightarrow> if s = [] then d else s
      | Some (Other is_truthy text) \<Rightarrow> if is_truthy then text else d)"

section \<open>The data hooks (app/hooks/useDatabase.ts)\<close>

subsection \<open>Types\<close>

record Position =
  ticker :: string
  position_amount :: number

record Portfolio =
  pf_id :: string
  pf_user_id :: string
  pf_name :: string
  pf_description :: "string option"
  pf_positions :: "Position list"
  pf_is_default :: bool
  pf_is_tracked :: bool
  pf_created_at :: string
  pf_updated_at :: string

text \<open>The \<open>result_summary\<close> object is never read by the hooks; its type is a parameter.\<close>

record 'r AnalysisSummary =
  an_id :: string
  an_user_id :: string
  an_portfolio_id :: "string option"
  an_portfolio_name :: string
  an_positions :: "Position list"
  an_analysis_period_days :: int
  an_result_summary :: 'r
  an_duration_ms :: "int option"
  an_created_at :: string
  an_has_html_report :: bool
  an_has_ai_memo :: bool

datatype alert_type = buy | sell | regime_change | drawdown | zscore_extreme

datatype severity = info | warning | critical

record Alert =
  al_id :: string
  al_user_id :: string
  al_portfolio_id :: string
  al_portfolio_name :: "string option"
  al_alert_type :: alert_type
  al_severity :: severity
  al_signal_date :: string
  al_message :: string
  is_read :: bool
  al_created_at :: string

subsection \<open>The remote call\<close>

text \<open>
  \<open>await authFetch(...)\<close> either rejects (\<open>Rejected\<close>) or returns a response
  (\<open>Returned\<close>). Of a response the mutators read \<open>res.ok\<close>. On failure they read the
  body as an error (\<open>res_err\<close>): it is not JSON, or it is the JSON value \<open>null\<close>, or
  it is another JSON value, given by its \<open>detail\<close> field (\<open>None\<close> when it has none). On
  success they read the parsed body (\<open>res_json\<close>: \<open>None\<close> when \<open>res.json()\<close>
  rejects), which is taken to be a value of the type the code declares for it.
\<close>

datatype err_body = NotJson | JsonNull | JsonValue "jsvalue option"

record 'a response =
  res_ok :: bool
  res_err :: err_body
  res_json :: "'a option"

text \<open>
  \<open>const err = await res.json().catch(() => ({})); ... err.detail\<close>: a body that is not
  JSON becomes the empty object, which has no \<open>detail\<close>; on \<open>null\<close> the property read
  throws.
\<close>

definition err_detail :: "err_body \<Rightarrow> exn + jsvalue option" where
  "err_detail b =
     (case b of NotJson \<Rightarrow> Inr None | JsonNull \<Rightarrow> Inl TypeError | JsonValue d \<Rightarrow> Inr d)"

text \<open>\<open>throw new Error(err.detail || fallback)\<close>, as the value thrown.\<close>

definition throw_detail :: "err_body \<Rightarrow> string \<Rightarrow> exn" where
  "throw_detail b fallback =
     (case err_detail b of Inl e \<Rightarrow> e | Inr d \<Rightarrow> Error (detail_or d fallback))"

datatype 'a fetched = Rejected exn | Returned "'a response"

subsection \<open>usePortfolios\<close>

record portfolios_state =
  portfolios :: "Portfolio list"
  pf_loading :: bool
  pf_error :: "string option"

text \<open>
  Every mutator returns the hook's state after the call together with what the promise
  settles to: \<open>Inl e\<close> when it throws \<open>e\<close>, \<open>Inr v\<close> when it resolves with \<open>v\<close>. The
  arguments that only go into the request body (name, positions, options) are not
  parameters of the model: the response is the environment's.
\<close>

definition savePortfolio ::
  "Portfolio fetched \<Rightarrow> portfolios_state \<Rightarrow> portfolios_state \<times> (exn + Portfolio)" where
  "savePortfolio f st =
     (case f of
        Rejected e \<Rightarrow> (st, Inl e)
      | Returned res \<Rightarrow>
          if \<not> res_ok res then
            (st, Inl (throw_detail (res_err res) ''Failed to save portfolio''))
          else
            (case res_json res of
               None \<Rightarrow> (st, Inl SyntaxError)
             | Some portfolio \<Rightarrow>
                 (st\<lparr>portfolios := portfolio # portfolios st\<rparr>, Inr portfolio)))"

definition deletePortfolio ::
  "string \<Rightarrow> unit fetched \<Rightarrow> portfolios_state \<Rightarrow> portfolios_state \<times> (exn + unit)" where
  "deletePortfolio i f st =
     (case f of
        Rejected e \<Rightarrow> (st, Inl e)
      | Returned res \<Rightarrow>
          if \<not> res_ok res then
            (st, Inl (throw_detail (res_err res) ''Failed to delete portfolio''))
          else
            (st\<lparr>portfolios := filter (\<lambda>p. pf_id p \<noteq> i) (portfolios st)\<rparr>, Inr ()))"

subsection \<open>useAnalyses\<close>

record 'r analyses_state =
  analyses :: "'r AnalysisSummary list"
  an_loading :: bool
  an_error :: "string option"
  total :: int

definition analyses_init :: "'r analyses_state" where
  "analyses_init = \<lparr>analyses = [], an_loading = True, an_error = None, total = 0\<rparr>"

definition saveAnalysis ::
  "'r AnalysisSummary fetched \<Rightarrow> 'r analyses_state \<Rightarrow>
     'r analyses_state \<times> (exn + 'r AnalysisSummary)" where
  "saveAnalysis f st =
     (case f of
        Rejected e \<Rightarrow> (st, Inl e)
      | Returned res \<Rightarrow>
          if \<not> res_ok res then
            (st, Inl (throw_detail (res_err res) ''Failed to save analysis''))
          else
            (case res_json res of
               None \<Rightarrow> (st, Inl SyntaxError)
             | Some analysis \<Rightarrow>
                 (st\<lparr>analyses := analysis # analyses st, total := total st + 1\<rparr>,
                  Inr analysis)))"

definition deleteAnalysis ::
  "string \<Rightarrow> unit fetched \<Rightarrow> 'r analyses_state \<Rightarrow> 'r analyses_state \<times> (exn + unit)" where
  "deleteAnalysis i f st =
     (case f of
        Rejected e \<Rightarrow> (st, Inl e)
      | Returned res \<Rightarrow>
          if \<not> res_ok res then
            (st, Inl (throw_detail (res_err res) ''Failed to delete analysis''))
          else
            (st\<lparr>analyses := filter (\<lambda>a. an_id a \<noteq> i) (analyses st),
                total := total st - 1\<rparr>, Inr ()))"

subsection \<open>useAlerts\<close>

record alerts_state =
  alerts :: "Alert list"
  unreadCount :: int
  al_loading :: bool
  al_error :: "string option"

definition markAsRead ::
  "string \<Rightarrow> unit fetched \<Rightarrow> alerts_state \<Rightarrow> alerts_state \<times> (exn + unit)" where
  "markAsRead i f st =
     (case f of
        Rejected e \<Rightarrow> (st, Inl e)
      | Returned res \<Rightarrow>
          if \<not> res_ok res then (st, Inl (Error ''Failed to mark alert as read''))
          else
            (st\<lparr>alerts := map (\<lambda>a. if al_id a = i then a\<lparr>is_read := True\<rparr> else a) (alerts st),
                unreadCount := max 0 (unreadCount st - 1)\<rparr>, Inr ()))"

definition markAllAsRead ::
  "unit fetched \<Rightarrow> alerts_state \<Rightarrow> alerts_state \<times> (exn + unit)" where
  "markAllAsRead f st =
     (case f of
        Rejected e \<Rightarrow> (st, Inl e)
      | Returned res \<Rightarrow>
          if \<not> res_ok res then (st, Inl (Error ''Failed to mark all alerts as read''))
          else
            (st\<lparr>alerts := map (\<lambda>a. a\<lparr>is_read := True\<rparr>) (alerts st),
                unreadCount := 0\<rparr>, Inr ()))"

text \<open>
  \<open>deleteAlert\<close> reads \<open>wasUnread\<close> from the \<open>alerts\<close> its closure captured (the list
  of the render that created the callback, \<open>seen\<close>), and filters the list of the state at
  the time of the update.
\<close>

definition wasUnread :: "Alert list \<Rightarrow> string \<Rightarrow> bool" where
  "wasUnread seen i =
     (case find (\<lambda>a. al_id a = i) seen of None \<Rightarrow> False | Some a \<Rightarrow> is_read a = False)"

definition deleteAlert ::
  "Alert list \<Rightarrow> string \<Rightarrow> unit fetched \<Rightarrow> alerts_state \<Rightarrow> alerts_state \<times> (exn + unit)" where
  "deleteAlert seen i f st =
     (case f of
        Rejected e \<Rightarrow> (st, Inl e)
      | Returned res \<Rightarrow>
          if \<not> res_ok res then (st, Inl (Error ''Failed to delete alert''))
          else
            (st\<lparr>alerts := filter (\<lambda>a. al_id a \<noteq> i) (alerts st),
                unreadCount := (if wasUnread seen i then max 0 (unreadCount st - 1)
                                else unreadCount st)\<rparr>, Inr ()))"

text \<open>The number of alerts of a list that are unread.\<close>

definition unread :: "Alert list \<Rightarrow> int" where
  "unread as = int (length (filter (\<lambda>a. \<not> is_read a) as))"

section \<open>The analysis screen (the component \<open>AnalysisApp\<close>)\<close>

subsection \<open>Types\<close>

text \<open>
  A character is a code unit below 256. \<open>trim\<close> is \<open>String.prototype.trim\<close> on such
  strings: it strips tab, line feed, vertical tab, form feed, carriage return, space and
  no-break space from both ends.
\<close>

definition js_space :: "char \<Rightarrow> bool" where
  "js_space c = (c \<in> {CHR 0x09, CHR 0x0A, CHR 0x0B, CHR 0x0C, CHR 0x0D, CHR '' '', CHR 0xA0})"

definition trim :: "string \<Rightarrow> string" where
  "trim q = rev (dropWhile js_space (rev (dropWhile js_space q)))"

text \<open>Of a candidate the optional \<open>confidence\<close>, which the screen never reads, is left out.\<close>

record Candidate =
  cand_name :: string
  provider :: string
  provider_symbol :: string
  cand_type :: string
  exchange :: "string option"
  currency :: "string option"

record PositionRow =
  row_id :: string
  query :: string
  resolvedSymbol :: "string option"
  amount :: number
  candidates :: "Candidate list"
  loading :: bool
  error :: "string option"

text \<open>
  \<open>Partial<PositionRow>\<close>: each field is present (\<open>Some\<close>) or absent. For the two
  nullable fields \<open>Some None\<close> is the patch that sets \<open>null\<close>.
\<close>

record patch =
  p_id :: "string option"
  p_query :: "string option"
  p_resolvedSymbol :: "string option option"
  p_amount :: "number option"
  p_candidates :: "Candidate list option"
  p_loading :: "bool option"
  p_error :: "string option option"

definition no_patch :: patch where
  "no_patch = \<lparr>p_id = None, p_query = None, p_resolvedSymbol = None, p_amount = None,
                p_candidates = None, p_loading = None, p_error = None\<rparr>"

text \<open>\<open>{ ...r, ...patch }\<close>\<close>

definition spread :: "PositionRow \<Rightarrow> patch \<Rightarrow> PositionRow" where
  "spread r p =
     \<lparr>row_id = (case p_id p of None \<Rightarrow> row_id r | Some v \<Rightarrow> v),
      query = (case p_query p of None \<Rightarrow> query r | Some v \<Rightarrow> v),
      resolvedSymbol = (case p_resolvedSymbol p of None \<Rightarrow> resolvedSymbol r | Some v \<Rightarrow> v),
      amount = (case p_amount p of None \<Rightarrow> amount r | Some v \<Rightarrow> v),
      candidates = (case p_candidates p of None \<Rightarrow> candidates r | Some v \<Rightarrow> v),
      loading = (case p_loading p of None \<Rightarrow> loading r | Some v \<Rightarrow> v),
      error = (case p_error p of None \<Rightarrow> error r | Some v \<Rightarrow> v)\<rparr>"

text \<open>An opaque JSON object, kept as its text.\<close>

datatype json = JSON string

record validity_view =
  validity_summary :: json
  full :: "json option"

record payload =
  portfolio_name :: string
  analysis_period_days :: int
  include_ai_memo :: bool
  positions :: "Position list"

text \<open>
  The network requests the screen issues: \<open>GET /resolve?q=\<close> with the signal of an
  \<open>AbortController\<close> (numbered in order of creation), and \<open>POST /analyze\<close>.
\<close>

datatype request = Resolve string nat | Analyze payload

record resolve_request =
  rq_ctl :: nat
  rq_row :: string
  rq_query :: string

text \<open>
  The state of the component, and with it what the environment holds: the controllers
  whose \<open>abort()\<close> was called (\<open>aborted\<close>), how many controllers were created
  (\<open>controllers\<close>), the \<open>/resolve\<close> fetches that have not settled yet (\<open>resolving\<close>) and
  the log of every request issued (\<open>sent\<close>).
\<close>

record app =
  rows :: "PositionRow list"
  portfolioName :: string
  days :: int
  running :: bool
  runError :: "string option"
  html :: string
  selectedPortfolioId :: "string option"
  analysisSaved :: bool
  validityData :: "validity_view option"
  includeAiMemo :: bool
  abortRefs :: "string \<rightharpoonup> nat"
  aborted :: "nat set"
  controllers :: nat
  resolving :: "resolve_request list"
  sent :: "request list"

subsection \<open>Initial state\<close>

text \<open>\<open>uid()\<close> draws a random identifier; the identifiers drawn are parameters.\<close>

definition rows_init :: "string \<Rightarrow> string \<Rightarrow> PositionRow list" where
  "rows_init u1 u2 =
     [\<lparr>row_id = u1, query = [], resolvedSymbol = None, amount = whole 1000000, candidates = [],
       loading = False, error = None\<rparr>,
      \<lparr>row_id = u2, query = [], resolvedSymbol = None, amount = whole (- 1000000),
       candidates = [],
       loading = False, error = None\<rparr>]"

definition app_init :: "string \<Rightarrow> string \<Rightarrow> app" where
  "app_init u1 u2 =
     \<lparr>rows = rows_init u1 u2, portfolioName = ''Long/Short Portfolio'', days = 180,
      running = False, runError = None, html = [], selectedPortfolioId = None,
      analysisSaved = False, validityData = None, includeAiMemo = True,
      abortRefs = Map.empty, aborted = {}, controllers = 0, resolving = [], sent = []\<rparr>"

subsection \<open>Computed values\<close>

text \<open>\<open>Number(r.amount || 0)\<close>\<close>

definition num :: "PositionRow \<Rightarrow> number" where
  "num r = (if truthy (amount r) then amount r else Finite 0)"

text \<open>The truthiness of \<open>r.resolvedSymbol\<close>.\<close>

definition resolved :: "PositionRow \<Rightarrow> bool" where
  "resolved r = (case resolvedSymbol r of None \<Rightarrow> False | Some s \<Rightarrow> s \<noteq> [])"

text \<open>The four exposures: \<open>rows.reduce((s, r) => s + ..., 0)\<close>, a sum from the left.\<close>

definition gross :: "PositionRow list \<Rightarrow> number" where
  "gross rs = foldl (\<lambda>s r. dadd s (dabs (num r))) (Finite 0) rs"

definition net :: "PositionRow list \<Rightarrow> number" where
  "net rs = foldl (\<lambda>s r. dadd s (num r)) (Finite 0) rs"

definition longExposure :: "PositionRow list \<Rightarrow> number" where
  "longExposure rs =
     foldl (\<lambda>s r. dadd s (if positive (num r) then amount r else Finite 0)) (Finite 0) rs"

definition shortExposure :: "PositionRow list \<Rightarrow> number" where
  "shortExposure rs =
     foldl (\<lambda>s r. dadd s (if negative (num r) then dabs (amount r) else Finite 0)) (Finite 0) rs"

definition allResolved :: "PositionRow list \<Rightarrow> bool" where
  "allResolved rs = list_all (\<lambda>r. resolved r \<or> num r = Finite 0) rs"

definition hasPositions :: "PositionRow list \<Rightarrow> bool" where
  "hasPositions rs = list_ex (\<lambda>r. resolved r \<and> num r \<noteq> Finite 0) rs"

text \<open>
  \<open>rows.filter(...).map(r => ({ ticker: r.resolvedSymbol!, amount: Number(r.amount) }))\<close>;
  after the filter the symbol is a non-empty string.
\<close>

definition currentPositions :: "PositionRow list \<Rightarrow> Position list" where
  "currentPositions rs =
     map (\<lambda>r. \<lparr>ticker = (case resolvedSymbol r of None \<Rightarrow> [] | Some s \<Rightarrow> s),
               position_amount = amount r\<rparr>)
         (filter (\<lambda>r. resolved r \<and> num r \<noteq> Finite 0) rs)"

text \<open>
  For stating when the sums are exact: the value of a finite number, and the lists of
  rationals of which every partial sum from the left, starting from \<open>s\<close>, is a double,
  so that adding them one by one rounds nothing.
\<close>

fun is_finite :: "number \<Rightarrow> bool" where
  "is_finite (Finite a) = True"
| "is_finite _ = False"

fun rat_of :: "number \<Rightarrow> rat" where
  "rat_of (Finite a) = a"
| "rat_of _ = 0"

fun exact_from :: "rat \<Rightarrow> rat list \<Rightarrow> bool" where
  "exact_from s [] = True"
| "exact_from s (x # xs) = (is_double (s + x) \<and> exact_from (s + x) xs)"

definition exact :: "rat list \<Rightarrow> bool" where
  "exact xs = exact_from 0 xs"

subsection \<open>Row management\<close>

text \<open>
  The functions below are the updaters that the source passes to \<open>setRows\<close>, on the list
  of rows at the time of the update. \<open>removeRow\<close> reads its guard from \<open>rows\<close>, the
  list of the render that created the handler (\<open>seen\<close>), and filters the list of the
  update.
\<close>

definition updateRow :: "string \<Rightarrow> patch \<Rightarrow> PositionRow list \<Rightarrow> PositionRow list" where
  "updateRow i p rs = map (\<lambda>r. if row_id r = i then spread r p else r) rs"

definition addRow :: "string \<Rightarrow> PositionRow list \<Rightarrow> PositionRow list" where
  "addRow u rs =
     rs @ [\<lparr>row_id = u, query = [], resolvedSymbol = None, amount = Finite 0, candidates = [],
            loading = False, error = None\<rparr>]"

definition removeRow ::
  "PositionRow list \<Rightarrow> string \<Rightarrow> PositionRow list \<Rightarrow> PositionRow list" where
  "removeRow seen i rs = (if length seen \<le> 2 then rs else filter (\<lambda>r. row_id r \<noteq> i) rs)"

subsection \<open>Ticker resolution\<close>

text \<open>
  \<open>resolveRow\<close> runs in two parts. The first, up to its \<open>await fetch(...)\<close>, is
  \<open>resolveRow\<close> below: on an empty trimmed query it only patches the row; otherwise it
  aborts the controller stored for the row, creates a new one, stores it, marks the row
  as loading and issues the fetch.
\<close>

definition resolveRow :: "string \<Rightarrow> string \<Rightarrow> app \<Rightarrow> app" where
  "resolveRow i q st =
     (let query' = trim q in
      if query' = [] then
        st\<lparr>rows := updateRow i (no_patch\<lparr>p_candidates := Some [], p_loading := Some False,
                                          p_error := Some None\<rparr>) (rows st)\<rparr>
      else
        let ac = controllers st in
        st\<lparr>aborted := (case abortRefs st i of None \<Rightarrow> aborted st
                        | Some c \<Rightarrow> insert c (aborted st)),
           controllers := Suc ac,
           abortRefs := (abortRefs st)(i \<mapsto> ac),
           rows := updateRow i (no_patch\<lparr>p_loading := Some True, p_error := Some None\<rparr>)
                     (rows st),
           resolving := resolving st @ [\<lparr>rq_ctl = ac, rq_row = i, rq_query = query'\<rparr>],
           sent := sent st @ [Resolve query' ac]\<rparr>)"

text \<open>
  What the awaited fetch and the reading of its body come to: a rejection (with
  \<open>AbortError\<close>, or with another error and its message), a response that is not ok, or
  the parsed body with its \<open>candidates\<close> (if present) and its \<open>auto_selected\<close> flag.
\<close>

datatype thrown = AbortError | Failure "string option"

datatype resolve_outcome = Rejects thrown | NotOk | Body "Candidate list option" bool

text \<open>The second part of \<open>resolveRow\<close>: the \<open>try\<close> block after the fetch, and the \<open>catch\<close>.\<close>

definition resolveRow_try :: "resolve_outcome \<Rightarrow> thrown + (Candidate list \<times> bool)" where
  "resolveRow_try out =
     (case out of
        Rejects e \<Rightarrow> Inl e
      | NotOk \<Rightarrow> Inl (Failure (Some ''Search failed''))
      | Body cs auto \<Rightarrow> Inr (case cs of None \<Rightarrow> [] | Some c \<Rightarrow> c, auto))"

definition resolveRow_settled ::
  "string \<Rightarrow> resolve_outcome \<Rightarrow> PositionRow list \<Rightarrow> PositionRow list" where
  "resolveRow_settled i out rs =
     (case resolveRow_try out of
        Inr (cands, auto) \<Rightarrow>
          (case cands of
             c # _ \<Rightarrow>
               if auto then
                 updateRow i (no_patch\<lparr>p_resolvedSymbol := Some (Some (provider_symbol c)),
                                       p_candidates := Some [], p_loading := Some False\<rparr>) rs
               else
                 updateRow i (no_patch\<lparr>p_candidates := Some cands, p_loading := Some False\<rparr>) rs
           | [] \<Rightarrow>
               updateRow i (no_patch\<lparr>p_candidates := Some cands, p_loading := Some False\<rparr>) rs)
      | Inl AbortError \<Rightarrow> rs
      | Inl (Failure m) \<Rightarrow>
          updateRow i (no_patch\<lparr>p_loading := Some False,
                                p_error := Some (Some (js_or m ''Search error''))\<rparr>) rs)"

text \<open>
  The environment settles the fetch that was issued with controller \<open>n\<close>. A fetch whose
  signal was aborted rejects with \<open>AbortError\<close>, whatever the server answered; this holds
  both while the response and while its body is awaited.
\<close>

definition settle :: "nat \<Rightarrow> resolve_outcome \<Rightarrow> app \<Rightarrow> app" where
  "settle n out st =
     (case find (\<lambda>rq. rq_ctl rq = n) (resolving st) of
        None \<Rightarrow> st
      | Some rq \<Rightarrow>
          st\<lparr>resolving := filter (\<lambda>x. rq_ctl x \<noteq> n) (resolving st),
             rows := resolveRow_settled (rq_row rq)
                       (if n \<in> aborted st then Rejects AbortError else out) (rows st)\<rparr>)"


subsection \<open>Event handlers of the position editor\<close>

text \<open>
  The handlers are created per rendered row, \<open>rows.map((row) => ...)\<close>, and close over
  that \<open>row\<close>: \<open>k\<close> is the row's position in the list. An event runs the handler of the
  render of the current state. \<open>onBlur\<close> is also what the Enter key runs. In \<open>onAmount\<close>,
  \<open>v\<close> is \<open>Number(e.target.value)\<close>.
\<close>

definition onChange :: "nat \<Rightarrow> string \<Rightarrow> app \<Rightarrow> app" where
  "onChange k val st =
     (if k < length (rows st) then
        st\<lparr>rows := updateRow (row_id (rows st ! k))
                     (no_patch\<lparr>p_query := Some val, p_resolvedSymbol := Some None,
                               p_candidates := Some [], p_error := Some None\<rparr>) (rows st)\<rparr>
      else st)"

definition onBlur :: "nat \<Rightarrow> app \<Rightarrow> app" where
  "onBlur k st =
     (if k < length (rows st) then resolveRow (row_id (rows st ! k)) (query (rows st ! k)) st
      else st)"

definition onPick :: "nat \<Rightarrow> nat \<Rightarrow> app \<Rightarrow> app" where
  "onPick k j st =
     (if k < length (rows st) \<and> j < length (candidates (rows st ! k))
         \<and> \<not> resolved (rows st ! k) then
        let c = candidates (rows st ! k) ! j in
        st\<lparr>rows := updateRow (row_id (rows st ! k))
                     (no_patch\<lparr>p_resolvedSymbol := Some (Some (provider_symbol c)),
                               p_query := Some (provider_symbol c),
                               p_candidates := Some []\<rparr>) (rows st)\<rparr>
      else st)"

definition onAmount :: "nat \<Rightarrow> number \<Rightarrow> app \<Rightarrow> app" where
  "onAmount k v st =
     (if k < length (rows st) then
        st\<lparr>rows := updateRow (row_id (rows st ! k))
                     (no_patch\<lparr>p_amount := Some (if truthy v then v else Finite 0)\<rparr>) (rows st)\<rparr>
      else st)"

definition onAdd :: "string \<Rightarrow> app \<Rightarrow> app" where
  "onAdd u st = st\<lparr>rows := addRow u (rows st)\<rparr>"

definition onRemove :: "nat \<Rightarrow> app \<Rightarrow> app" where
  "onRemove k st =
     (if k < length (rows st) then
        st\<lparr>rows := removeRow (rows st) (row_id (rows st ! k)) (rows st)\<rparr>
      else st)"

text \<open>The inputs of the configuration card and the memo checkbox.\<close>

definition onPortfolioName :: "string \<Rightarrow> app \<Rightarrow> app" where
  "onPortfolioName v st = st\<lparr>portfolioName := v\<rparr>"

definition onDays :: "int \<Rightarrow> app \<Rightarrow> app" where
  "onDays v st = st\<lparr>days := v\<rparr>"

definition onIncludeAiMemo :: "bool \<Rightarrow> app \<Rightarrow> app" where
  "onIncludeAiMemo v st = st\<lparr>includeAiMemo := v\<rparr>"

text \<open>\<open>handleLoadPortfolio\<close>, without its toast; \<open>uid_at k\<close> is the identifier drawn for row \<open>k\<close>.\<close>

definition handleLoadPortfolio :: "(nat \<Rightarrow> string) \<Rightarrow> Portfolio \<Rightarrow> app \<Rightarrow> app" where
  "handleLoadPortfolio uid_at portfolio st =
     st\<lparr>selectedPortfolioId := Some (pf_id portfolio),
        portfolioName := pf_name portfolio,
        rows := map (\<lambda>(k, p). \<lparr>row_id = uid_at k, query = ticker p,
                                resolvedSymbol = Some (ticker p), amount = position_amount p,
                                candidates = [], loading = False, error = None\<rparr>)
                    (enumerate 0 (pf_positions portfolio)),
        html := [],
        analysisSaved := False\<rparr>"

subsection \<open>Analysis submission\<close>

record analyze_data =
  html_report :: "string option"
  validity :: "json option"
  validity_full :: "json option"

text \<open>
  Of the response to \<open>POST /analyze\<close>: its status, its body as text (\<open>None\<close> when
  \<open>res.text()\<close> rejects) and as JSON (\<open>Inl m\<close> when \<open>res.json()\<close> rejects with
  message \<open>m\<close>). \<open>authFetch\<close> itself may reject (\<open>Fails\<close>).
\<close>

record analyze_response =
  status :: nat
  body_text :: "string option"
  body_json :: "string option + analyze_data"

datatype analyze_fetched = Fails "string option" | Responds analyze_response

definition ok :: "nat \<Rightarrow> bool" where
  "ok s = (200 \<le> s \<and> s \<le> 299)"

text \<open>The decimal numeral of a number, as a template literal prints it.\<close>

definition digit :: "nat \<Rightarrow> char" where
  "digit d = ''0123456789'' ! d"

fun show_nat :: "nat \<Rightarrow> string" where
  "show_nat n = (if n < 10 then [digit n] else show_nat (n div 10) @ [digit (n mod 10)])"

declare show_nat.simps [simp del]

text \<open>The \<open>try\<close> block after the request: \<open>Inl m\<close> when it throws an error of message \<open>m\<close>.\<close>

definition runAnalysis_try :: "analyze_fetched \<Rightarrow> string option + analyze_data" where
  "runAnalysis_try f =
     (case f of
        Fails m \<Rightarrow> Inl m
      | Responds res \<Rightarrow>
          if status res = 401 then Inl (Some ''Session expired. Please refresh.'')
          else if status res = 429 then Inl (Some ''Rate limit exceeded. Please wait.'')
          else if \<not> ok (status res) then
            (let txt = (case body_text res of None \<Rightarrow> [] | Some t \<Rightarrow> t) in
             Inl (Some (''Analysis failed: '' @
                        js_or (Some txt) (''HTTP '' @ show_nat (status res)))))
          else body_json res)"

definition runAnalysis_settled :: "analyze_fetched \<Rightarrow> app \<Rightarrow> app" where
  "runAnalysis_settled f st =
     (case runAnalysis_try f of
        Inr data \<Rightarrow>
          st\<lparr>html := js_or (html_report data) [],
             validityData := (case validity data of
                                None \<Rightarrow> validityData st
                              | Some v \<Rightarrow> Some \<lparr>validity_summary = v,
                                                full = validity_full data\<rparr>),
             running := False\<rparr>
      | Inl m \<Rightarrow> st\<lparr>runError := Some (js_or m ''Failed to run analysis''), running := False\<rparr>)"

text \<open>
  \<open>runAnalysis f\<close>, where \<open>f\<close> is what the request comes to if one is issued. The
  scrolling to the report is not modelled.
\<close>

definition runAnalysis :: "analyze_fetched \<Rightarrow> app \<Rightarrow> app" where
  "runAnalysis f st =
     (let st1 = st\<lparr>runError := None, html := [], analysisSaved := False,
                   validityData := None\<rparr>;
          positions' = map (\<lambda>r. \<lparr>ticker = (case resolvedSymbol r of None \<Rightarrow> [] | Some s \<Rightarrow> s),
                                  position_amount = amount r\<rparr>)
                           (filter (\<lambda>r. resolved r \<and> num r \<noteq> Finite 0) (rows st))
      in
      if length positions' = 0 then
        st1\<lparr>runError :=
              Some ''Please add at least one position with a resolved ticker and amount.''\<rparr>
      else
        (case find (\<lambda>r. num r \<noteq> Finite 0 \<and> \<not> resolved r) (rows st) of
           Some bad \<Rightarrow>
             st1\<lparr>runError :=
                   Some ''One or more positions has an amount but no selected ticker.''\<rparr>
         | None \<Rightarrow>
             let payload' = \<lparr>portfolio_name = portfolioName st,
                             analysis_period_days = (if days st \<noteq> 0 then days st else 180),
                             include_ai_memo = includeAiMemo st,
                             positions = positions'\<rparr>
             in runAnalysis_settled f
                  (st1\<lparr>running := True, sent := sent st1 @ [Analyze payload']\<rparr>)))"

subsection \<open>The screen as a transition system\<close>

datatype event =
    Add string
  | Remove nat
  | Change nat string
  | Blur nat
  | Pick nat nat
  | Amount nat number
  | Name string
  | Days int
  | Memo bool
  | Load "nat \<Rightarrow> string" Portfolio
  | Run analyze_fetched
  | Settle nat resolve_outcome

fun fire :: "event \<Rightarrow> app \<Rightarrow> app" where
  "fire (Add u) st = onAdd u st"
| "fire (Remove k) st = onRemove k st"
| "fire (Change k val) st = onChange k val st"
| "fire (Blur k) st = onBlur k st"
| "fire (Pick k j) st = onPick k j st"
| "fire (Amount k v) st = onAmount k v st"
| "fire (Name v) st = onPortfolioName v st"
| "fire (Days v) st = onDays v st"
| "fire (Memo v) st = onIncludeAiMemo v st"
| "fire (Load uid_at portfolio) st = handleLoadPortfolio uid_at portfolio st"
| "fire (Run f) st = runAnalysis f st"
| "fire (Settle n out) st = settle n out st"









text \<open>A sequence of events, fired in order.\<close>

fun run :: "event list \<Rightarrow> app \<Rightarrow> app" where
  "run [] st = st"
| "run (e # es) st = run es (fire e st)"

subsection \<open>Example values\<close>

text \<open>Concrete alerts, analyses, responses, rows and states, for the examples below.\<close>

definition mk_alert :: "string \<Rightarrow> bool \<Rightarrow> Alert" where
  "mk_alert i r = \<lparr>al_id = i, al_user_id = ''u'', al_portfolio_id = ''p'',
     al_portfolio_name = None, al_alert_type = buy, al_severity = info, al_signal_date = [],
     al_message = [], is_read = r, al_created_at = []\<rparr>"

definition mk_analysis :: "string \<Rightarrow> unit AnalysisSummary" where
  "mk_analysis i = \<lparr>an_id = i, an_user_id = ''u'', an_portfolio_id = None,
     an_portfolio_name = ''P'', an_positions = [], an_analysis_period_days = 180,
     an_result_summary = (), an_duration_ms = None, an_created_at = [],
     an_has_html_report = True, an_has_ai_memo = False\<rparr>"

definition mk_portfolios :: portfolios_state where
  "mk_portfolios = \<lparr>portfolios = [], pf_loading = False, pf_error = None\<rparr>"

definition mk_analyses :: "unit analyses_state" where
  "mk_analyses = \<lparr>analyses = [mk_analysis ''x'', mk_analysis ''y''], an_loading = False,
                    an_error = None, total = 2\<rparr>"

definition mk_alerts :: alerts_state where
  "mk_alerts = \<lparr>alerts = [mk_alert ''a'' True, mk_alert ''b'' False], unreadCount = 1,
                  al_loading = False, al_error = None\<rparr>"

definition ok_response :: "unit response" where
  "ok_response = \<lparr>res_ok = True, res_err = NotJson, res_json = None\<rparr>"

definition refused :: "err_body \<Rightarrow> 'a response" where
  "refused b = \<lparr>res_ok = False, res_err = b, res_json = None\<rparr>"

definition mk_row :: "string \<Rightarrow> string option \<Rightarrow> int \<Rightarrow> PositionRow" where
  "mk_row i s v = \<lparr>row_id = i, query = (case s of None \<Rightarrow> [] | Some t \<Rightarrow> t),
     resolvedSymbol = s, amount = whole v, candidates = [], loading = False, error = None\<rparr>"



definition with_rows :: "PositionRow list \<Rightarrow> app" where
  "with_rows rs = (app_init ''a'' ''b'')\<lparr>rows := rs\<rparr>"


section \<open>Properties of the numbers\<close>

text \<open>
  A whole number of magnitude at most \<open>2^53\<close> is a double, so that adding two whole
  numbers whose sum stays in that range rounds nothing.
\<close>

lemma half_even_of_int: "half_even (of_int m) = m"
  by (simp add: half_even_def)

lemma pow2_bitlen_le:
  assumes "0 < k"
  shows "pow2 (bitlen k - 1) \<le> of_int k"
proof -
  from assms have b: "1 \<le> bitlen k" by (auto simp: bitlen_alt_def)
  from bitlen_bounds [OF assms] have "2 ^ nat (bitlen k - 1) \<le> k" ..
  then have "(of_int (2 ^ nat (bitlen k - 1)) :: rat) \<le> of_int k"
    by (simp only: of_int_le_iff)
  with b show ?thesis by (simp add: pow2_def)
qed

lemma ilog2_whole:
  assumes "0 < k"
  shows "ilog2 (of_int k) = bitlen k - 1"
proof -
  have "bitlen 1 = 1" by (simp add: bitlen_alt_def)
  with pow2_bitlen_le [OF assms] show ?thesis by (simp add: ilog2_def)
qed

lemma dround_small_whole:
  assumes "k \<noteq> 0" "\<bar>k\<bar> < 2 ^ 53"
  shows "dround (of_int k) = Finite (of_int k)"
proof -
  from assms(1) have pos: "0 < \<bar>k\<bar>" by simp
  then have b1: "1 \<le> bitlen \<bar>k\<bar>" by (auto simp: bitlen_alt_def)
  from assms(2) have b2: "bitlen \<bar>k\<bar> \<le> 53" by (simp add: bitlen_le_iff_power)
  define j where "j = nat (53 - bitlen \<bar>k\<bar>)"
  have il: "ilog2 \<bar>of_int k\<bar> = bitlen \<bar>k\<bar> - 1"
    using ilog2_whole [OF pos] by simp
  have e: "max (ilog2 \<bar>of_int k\<bar>) (- 1022) - 52 = - int j"
    unfolding il using b1 b2 by (simp add: j_def)
  have u: "pow2 (- int j) = 1 / 2 ^ j"
    by (cases "j = 0") (simp_all add: pow2_def)
  have q: "(of_int k :: rat) / (1 / 2 ^ j) = of_int (k * 2 ^ j)"
    by simp
  have r: "of_int (half_even ((of_int k :: rat) / (1 / 2 ^ j))) * (1 / 2 ^ j) = (of_int k :: rat)"
    unfolding q half_even_of_int by simp
  have "(of_int \<bar>k\<bar> :: rat) < 2 ^ 53"
    using assms(2) by (metis of_int_less_numeral_power_cancel_iff)
  also have "\<dots> < pow2 1024" by (simp add: pow2_def)
  finally have lt: "\<not> pow2 1024 \<le> \<bar>(of_int k :: rat)\<bar>" by simp
  from assms(1) have nz: "(of_int k :: rat) \<noteq> 0" by simp
  show ?thesis
    unfolding dround_def Let_def e u r using nz lt by simp
qed

lemma dround_top: "dround 9007199254740992 = Finite 9007199254740992"
  "dround (- 9007199254740992) = Finite (- 9007199254740992)"
  by code_simp+

lemma is_double_whole:
  assumes "\<bar>k\<bar> \<le> 2 ^ 53"
  shows "is_double (of_int k)"
proof -
  consider "k = 0" | "k \<noteq> 0" "\<bar>k\<bar> < 2 ^ 53" | "k = 2 ^ 53" | "k = - (2 ^ 53)"
    using assms by fastforce
  then show ?thesis
  proof cases
    case 1
    then show ?thesis by (simp add: is_double_def dround_def)
  next
    case 2
    then show ?thesis by (simp add: is_double_def dround_small_whole)
  next
    case 3
    then show ?thesis using dround_top(1) by (simp add: is_double_def)
  next
    case 4
    then show ?thesis using dround_top(2) by (simp add: is_double_def)
  qed
qed

lemma dadd_whole: "\<bar>a + b\<bar> \<le> 2 ^ 53 \<Longrightarrow> dadd (whole a) (whole b) = whole (a + b)"
  using is_double_whole [of "a + b"] by (simp add: whole_def is_double_def)


section \<open>Properties of the data hooks\<close>

lemma js_or_simps:
  "js_or None d = d" "js_or (Some []) d = d" "s \<noteq> [] \<Longrightarrow> js_or (Some s) d = s"
  by (simp_all add: js_or_def)

lemma deleteAnalysis_ok:
  "res_ok res \<Longrightarrow> deleteAnalysis i (Returned res) st =
     (st\<lparr>analyses := filter (\<lambda>a. an_id a \<noteq> i) (analyses st), total := total st - 1\<rparr>, Inr ())"
  by (simp add: deleteAnalysis_def)

text \<open>
  C2. The claim: a successful \<open>markAsRead\<close> decrements \<open>unreadCount\<close> by exactly 1, only
  when the alert was unread before, and never below zero. The code decrements whenever
  the count is positive, without looking at the alert: with the alerts \<open>a\<close> (read) and
  \<open>b\<close> (unread) and a count of 1, marking \<open>a\<close> as read again changes no alert, leaves
  one alert unread, and sets the count to 0.
\<close>

theorem markAsRead_already_read:
  "alerts (fst (markAsRead ''a'' (Returned ok_response) mk_alerts)) = alerts mk_alerts \<and>
   unread (alerts (fst (markAsRead ''a'' (Returned ok_response) mk_alerts))) = 1 \<and>
   unreadCount mk_alerts = 1 \<and>
   unreadCount (fst (markAsRead ''a'' (Returned ok_response) mk_alerts)) = 0"
  by (simp add: markAsRead_def ok_response_def mk_alerts_def mk_alert_def unread_def)

text \<open>
  What does hold of \<open>markAsRead\<close>: the count never becomes negative, and it goes down by
  exactly 1 when it was positive.
\<close>

lemma markAsRead_count:
  "res_ok res \<Longrightarrow>
     unreadCount (fst (markAsRead i (Returned res) st)) = max 0 (unreadCount st - 1) \<and>
     0 \<le> unreadCount (fst (markAsRead i (Returned res) st))"
  by (simp add: markAsRead_def)

lemma throw_detail_simps:
  "throw_detail NotJson f = Error f"
  "throw_detail (JsonValue None) f = Error f"
  "throw_detail (JsonValue (Some (Str []))) f = Error f"
  "d \<noteq> [] \<Longrightarrow> throw_detail (JsonValue (Some (Str d))) f = Error d"
  "throw_detail (JsonValue (Some (Other True t))) f = Error t"
  "throw_detail (JsonValue (Some (Other False t))) f = Error f"
  by (simp_all add: throw_detail_def err_detail_def detail_or_def)

text \<open>On an error body that is the JSON value \<open>null\<close> the four mutators throw a \<open>TypeError\<close>.\<close>

lemma throw_detail_null: "throw_detail JsonNull f = TypeError"
  by (simp add: throw_detail_def err_detail_def)

text \<open>
  C6, as stated: every mutator that gets a response that is not ok throws an error
  carrying the server's detail message, or a generic message when there is none, and
  leaves the state of its hook unchanged. The three mutators of the alerts hook never read
  the response body: here the server's detail is \<open>Alert not found\<close> and the error thrown
  carries the generic message.
\<close>

theorem markAsRead_drops_detail:
  "snd (markAsRead ''a'' (Returned (refused (JsonValue (Some (Str ''Alert not found''))))) mk_alerts) =
     Inl (Error ''Failed to mark alert as read'') \<and>
   snd (markAsRead ''a'' (Returned (refused (JsonValue (Some (Str ''Alert not found''))))) mk_alerts) \<noteq>
     Inl (Error ''Alert not found'')"
  by (simp add: markAsRead_def refused_def)

text \<open>
  C6, amended: on a response that is not ok every mutator throws and leaves the state of
  its hook unchanged. When the body of the response is not the JSON value \<open>null\<close>,
  \<open>savePortfolio\<close>, \<open>deletePortfolio\<close>, \<open>saveAnalysis\<close> and \<open>deleteAnalysis\<close> throw an
  error whose message is the server's detail when that is present and truthy (a string
  that is not empty, as it is; another truthy value, as its text), and their generic
  message otherwise. \<open>markAsRead\<close>, \<open>markAllAsRead\<close> and \<open>deleteAlert\<close> always throw
  their generic message.
\<close>

theorem mutators_fail_unchanged:
  "(\<not> res_ok rp \<longrightarrow>
      savePortfolio (Returned rp) ps =
        (ps, Inl (throw_detail (res_err rp) ''Failed to save portfolio''))) \<and>
   (\<not> res_ok ru \<longrightarrow>
      deletePortfolio i (Returned ru) ps =
        (ps, Inl (throw_detail (res_err ru) ''Failed to delete portfolio''))) \<and>
   (\<not> res_ok ra \<longrightarrow>
      saveAnalysis (Returned ra) ans =
        (ans, Inl (throw_detail (res_err ra) ''Failed to save analysis''))) \<and>
   (\<not> res_ok ru \<longrightarrow>
      deleteAnalysis i (Returned ru) ans =
        (ans, Inl (throw_detail (res_err ru) ''Failed to delete analysis''))) \<and>
   (\<not> res_ok ru \<longrightarrow>
      markAsRead i (Returned ru) als = (als, Inl (Error ''Failed to mark alert as read''))) \<and>
   (\<not> res_ok ru \<longrightarrow>
      markAllAsRead (Returned ru) als =
        (als, Inl (Error ''Failed to mark all alerts as read''))) \<and>
   (\<not> res_ok ru \<longrightarrow>
      deleteAlert seen i (Returned ru) als = (als, Inl (Error ''Failed to delete alert''))) \<and>
   (d \<noteq> [] \<longrightarrow> throw_detail (JsonValue (Some (Str d))) fallback = Error d) \<and>
   throw_detail (JsonValue (Some (Other True text))) fallback = Error text \<and>
   throw_detail (JsonValue (Some (Other False text))) fallback = Error fallback \<and>
   throw_detail (JsonValue (Some (Str []))) fallback = Error fallback \<and>
   throw_detail (JsonValue None) fallback = Error fallback \<and>
   throw_detail NotJson fallback = Error fallback"
  by (simp add: savePortfolio_def deletePortfolio_def saveAnalysis_def deleteAnalysis_def
      markAsRead_def markAllAsRead_def deleteAlert_def throw_detail_simps)

theorem mutators_fail_unchanged_witness:
  "\<not> res_ok (refused (JsonValue (Some (Str ''Name already used''))) :: Portfolio response) \<and>
   savePortfolio (Returned (refused (JsonValue (Some (Str ''Name already used''))))) mk_portfolios =
     (mk_portfolios, Inl (Error ''Name already used'')) \<and>
   deleteAnalysis ''x'' (Returned (refused NotJson)) mk_analyses =
     (mk_analyses, Inl (Error ''Failed to delete analysis'')) \<and>
   fst (deletePortfolio ''x'' (Returned (refused JsonNull)) mk_portfolios) = mk_portfolios \<and>
   markAsRead ''b'' (Returned (refused (JsonValue (Some (Str ''Alert not found''))))) mk_alerts =
     (mk_alerts, Inl (Error ''Failed to mark alert as read''))"
  using mutators_fail_unchanged [of "refused (JsonValue (Some (Str ''Name already used'')))"
      mk_portfolios "refused NotJson" "''x''" "refused NotJson" mk_analyses mk_alerts "[]"
      "''Name already used''" "''Failed to save portfolio''" "''t''"]
    mutators_fail_unchanged [of "refused (JsonValue (Some (Str ''Name already used'')))"
      mk_portfolios "refused (JsonValue (Some (Str ''Alert not found'')))" "''b''"
      "refused NotJson" mk_analyses mk_alerts "[]" "''d''" "''f''" "''t''"]
    mutators_fail_unchanged [of "refused (JsonValue (Some (Str ''Name already used'')))"
      mk_portfolios "refused JsonNull" "''x''"
      "refused NotJson" mk_analyses mk_alerts "[]" "''d''" "''f''" "''t''"]
  by (simp add: refused_def throw_detail_simps)

text \<open>
  C8. A successful \<open>deleteAnalysis i\<close> removes the analyses with identifier \<open>i\<close> from
  the list, keeps all the others, and decrements \<open>total\<close> by exactly 1.
\<close>

theorem deleteAnalysis_removes:
  "res_ok res \<Longrightarrow>
     (\<forall>a. a \<in> set (analyses (fst (deleteAnalysis i (Returned res) st))) \<longleftrightarrow>
            a \<in> set (analyses st) \<and> an_id a \<noteq> i) \<and>
     total (fst (deleteAnalysis i (Returned res) st)) = total st - 1 \<and>
     snd (deleteAnalysis i (Returned res) st) = Inr ()"
  by (simp add: deleteAnalysis_ok)

theorem deleteAnalysis_removes_witness:
  "res_ok ok_response \<and>
   analyses (fst (deleteAnalysis ''x'' (Returned ok_response) mk_analyses)) =
     [mk_analysis ''y''] \<and>
   total (fst (deleteAnalysis ''x'' (Returned ok_response) mk_analyses)) = 1"
proof -
  have h: "res_ok ok_response" by (simp add: ok_response_def)
  have l: "analyses (fst (deleteAnalysis ''x'' (Returned ok_response) mk_analyses)) =
      [mk_analysis ''y'']"
    by (simp add: deleteAnalysis_def ok_response_def mk_analyses_def mk_analysis_def)
  from deleteAnalysis_removes [OF h, of "''x''" mk_analyses]
  have "total (fst (deleteAnalysis ''x'' (Returned ok_response) mk_analyses)) = 1"
    by (simp add: mk_analyses_def)
  with h l show ?thesis by simp
qed

text \<open>
  C10. \<open>deleteAnalysis\<close> decrements \<open>total\<close> on every successful response, also when no
  analysis of the list has the identifier, in which case the list is unchanged. Nothing
  clamps \<open>total\<close>: from a value of at most zero it becomes negative, and when it did not
  exceed the length of the list before, it is below that length afterwards. The unread
  counter of the alerts, in contrast, is never negative after \<open>markAsRead\<close>.
\<close>

theorem deleteAnalysis_total_unclamped:
  "res_ok res \<Longrightarrow>
     total (fst (deleteAnalysis i (Returned res) st)) = total st - 1 \<and>
     (i \<notin> an_id ` set (analyses st) \<longrightarrow>
        analyses (fst (deleteAnalysis i (Returned res) st)) = analyses st) \<and>
     (total st \<le> 0 \<longrightarrow> total (fst (deleteAnalysis i (Returned res) st)) < 0) \<and>
     (i \<notin> an_id ` set (analyses st) \<and> total st \<le> int (length (analyses st)) \<longrightarrow>
        total (fst (deleteAnalysis i (Returned res) st))
          < int (length (analyses (fst (deleteAnalysis i (Returned res) st))))) \<and>
     (res_ok res' \<longrightarrow> 0 \<le> unreadCount (fst (markAsRead j (Returned res') als)))"
proof -
  assume ok: "res_ok res"
  have keep: "i \<notin> an_id ` set (analyses st) \<Longrightarrow>
      filter (\<lambda>a. an_id a \<noteq> i) (analyses st) = analyses st"
    by (rule filter_True) auto
  show ?thesis
    using ok keep by (auto simp: deleteAnalysis_ok markAsRead_def)
qed

theorem deleteAnalysis_total_unclamped_witness:
  "res_ok ok_response \<and>
   total (fst (deleteAnalysis ''x'' (Returned ok_response)
                 (analyses_init :: unit analyses_state))) = - 1 \<and>
   analyses (fst (deleteAnalysis ''x'' (Returned ok_response)
                    (analyses_init :: unit analyses_state))) = []"
  using deleteAnalysis_total_unclamped [of ok_response "''x''"
      "analyses_init :: unit analyses_state" ok_response "''y''" mk_alerts]
  by (simp add: ok_response_def analyses_init_def)

section \<open>Properties of the position editor\<close>




subsection \<open>Exposures\<close>

lemma foldl_exact:
  assumes "\<forall>r \<in> set rs. f r = Finite (g r)" and "exact_from s (map g rs)"
  shows "foldl (\<lambda>a r. dadd a (f r)) (Finite s) rs = Finite (s + sum_list (map g rs))"
  using assms
proof (induction rs arbitrary: s)
  case Nil
  then show ?case by simp
next
  case (Cons r rs)
  from Cons.prems have f: "f r = Finite (g r)" and d: "is_double (s + g r)"
    and rest: "exact_from (s + g r) (map g rs)" and fs: "\<forall>x \<in> set rs. f x = Finite (g x)"
    by simp_all
  from d have "dadd (Finite s) (f r) = Finite (s + g r)"
    by (simp add: f is_double_def)
  with Cons.IH [OF fs rest] show ?case by (simp add: add.assoc)
qed

lemma finite_amount: "is_finite (amount r) \<Longrightarrow> amount r = Finite (rat_of (amount r))"
  by (cases "amount r") simp_all

lemma num_finite: "is_finite (amount r) \<Longrightarrow> num r = Finite (rat_of (amount r))"
  by (cases "amount r") (simp_all add: num_def)

lemma gross_exact:
  assumes "\<forall>r \<in> set rs. is_finite (amount r)" "exact (map (\<lambda>r. \<bar>rat_of (amount r)\<bar>) rs)"
  shows "gross rs = Finite (\<Sum>r\<leftarrow>rs. \<bar>rat_of (amount r)\<bar>)"
proof -
  from assms(1) have "\<forall>r \<in> set rs. dabs (num r) = Finite \<bar>rat_of (amount r)\<bar>"
    by (simp add: num_finite)
  from foldl_exact [OF this, of 0] assms(2) show ?thesis
    by (simp add: gross_def exact_def)
qed

lemma net_exact:
  assumes "\<forall>r \<in> set rs. is_finite (amount r)" "exact (map (\<lambda>r. rat_of (amount r)) rs)"
  shows "net rs = Finite (\<Sum>r\<leftarrow>rs. rat_of (amount r))"
proof -
  from assms(1) have "\<forall>r \<in> set rs. num r = Finite (rat_of (amount r))"
    by (simp add: num_finite)
  from foldl_exact [OF this, of 0] assms(2) show ?thesis
    by (simp add: net_def exact_def)
qed

lemma long_exact:
  assumes "\<forall>r \<in> set rs. is_finite (amount r)"
    "exact (map (\<lambda>r. max 0 (rat_of (amount r))) rs)"
  shows "longExposure rs = Finite (\<Sum>r\<leftarrow>rs. max 0 (rat_of (amount r)))"
proof -
  have "(if positive (num r) then amount r else Finite 0) = Finite (max 0 (rat_of (amount r)))"
    if "is_finite (amount r)" for r
    using that by (cases "amount r") (simp_all add: num_def max_def)
  with assms(1) have "\<forall>r \<in> set rs.
      (if positive (num r) then amount r else Finite 0) = Finite (max 0 (rat_of (amount r)))"
    by blast
  from foldl_exact [OF this, of 0] assms(2) show ?thesis
    by (simp add: longExposure_def exact_def)
qed

lemma short_exact:
  assumes "\<forall>r \<in> set rs. is_finite (amount r)"
    "exact (map (\<lambda>r. max 0 (- rat_of (amount r))) rs)"
  shows "shortExposure rs = Finite (\<Sum>r\<leftarrow>rs. max 0 (- rat_of (amount r)))"
proof -
  have "(if negative (num r) then dabs (amount r) else Finite 0) =
          Finite (max 0 (- rat_of (amount r)))"
    if "is_finite (amount r)" for r
    using that by (cases "amount r") (simp_all add: num_def max_def)
  with assms(1) have "\<forall>r \<in> set rs.
      (if negative (num r) then dabs (amount r) else Finite 0) =
        Finite (max 0 (- rat_of (amount r)))"
    by blast
  from foldl_exact [OF this, of 0] assms(2) show ?thesis
    by (simp add: shortExposure_def exact_def)
qed

lemma exact_whole:
  assumes "\<forall>r \<in> set rs. \<bar>h r\<bar> \<le> \<bar>k r\<bar>" and "\<bar>s\<bar> + (\<Sum>r\<leftarrow>rs. \<bar>k r\<bar>) \<le> 2 ^ 53"
  shows "exact_from (of_int s) (map (\<lambda>r. of_int (h r)) rs)"
  using assms
proof (induction rs arbitrary: s)
  case Nil
  then show ?case by simp
next
  case (Cons r rs)
  from Cons.prems have hk: "\<bar>h r\<bar> \<le> \<bar>k r\<bar>" and rest: "\<forall>x \<in> set rs. \<bar>h x\<bar> \<le> \<bar>k x\<bar>"
    and b: "\<bar>s\<bar> + \<bar>k r\<bar> + (\<Sum>r\<leftarrow>rs. \<bar>k r\<bar>) \<le> 2 ^ 53"
    by simp_all
  have nn: "0 \<le> (\<Sum>r\<leftarrow>rs. \<bar>k r\<bar>)"
    by (rule sum_list_nonneg) auto
  from hk b nn have b1: "\<bar>s + h r\<bar> \<le> 2 ^ 53" by linarith
  from hk b have b2: "\<bar>s + h r\<bar> + (\<Sum>r\<leftarrow>rs. \<bar>k r\<bar>) \<le> 2 ^ 53" by linarith
  from is_double_whole [OF b1] have "is_double (of_int s + of_int (h r))" by simp
  moreover from Cons.IH [OF rest b2]
  have "exact_from (of_int s + of_int (h r)) (map (\<lambda>r. of_int (h r)) rs)" by simp
  ultimately show ?case by simp
qed

lemma sum_whole: "(\<Sum>r\<leftarrow>rs. (of_int (h r) :: rat)) = of_int (\<Sum>r\<leftarrow>rs. h r)"
  by (induction rs) simp_all

lemma exposures_whole:
  assumes w: "\<forall>r \<in> set rs. amount r = whole (k r)" and b: "(\<Sum>r\<leftarrow>rs. \<bar>k r\<bar>) \<le> 2 ^ 53"
  shows "gross rs = whole (\<Sum>r\<leftarrow>rs. \<bar>k r\<bar>)"
    and "net rs = whole (\<Sum>r\<leftarrow>rs. k r)"
    and "longExposure rs = whole (\<Sum>r\<leftarrow>rs. max 0 (k r))"
    and "shortExposure rs = whole (\<Sum>r\<leftarrow>rs. max 0 (- k r))"
proof -
  from w have fin: "\<forall>r \<in> set rs. is_finite (amount r)"
    by (simp add: whole_def)
  from b have b0: "\<bar>0\<bar> + (\<Sum>r\<leftarrow>rs. \<bar>k r\<bar>) \<le> 2 ^ 53" by simp
  have m: "map (\<lambda>r. g (rat_of (amount r))) rs = map (\<lambda>r. g (of_int (k r))) rs" for g :: "rat \<Rightarrow> rat"
    using w by (simp add: whole_def)
  have m0: "map (\<lambda>r. rat_of (amount r)) rs = map (\<lambda>r. of_int (k r)) rs"
    using w by (simp add: whole_def)
  have e: "exact (map (\<lambda>r. of_int (h r)) rs)" if "\<forall>r \<in> set rs. \<bar>h r\<bar> \<le> \<bar>k r\<bar>" for h
    using exact_whole [OF that b0] by (simp add: exact_def)
  have "exact (map (\<lambda>r. \<bar>rat_of (amount r)\<bar>) rs)"
    using e [of "\<lambda>r. \<bar>k r\<bar>"] by (simp add: m)
  from gross_exact [OF fin this] show "gross rs = whole (\<Sum>r\<leftarrow>rs. \<bar>k r\<bar>)"
    using sum_whole [of "\<lambda>r. \<bar>k r\<bar>" rs] by (simp add: m whole_def)
  have "exact (map (\<lambda>r. rat_of (amount r)) rs)"
    unfolding m0 using e [of k] by simp
  from net_exact [OF fin this] show "net rs = whole (\<Sum>r\<leftarrow>rs. k r)"
    unfolding m0 using sum_whole [of k rs] by (simp add: whole_def)
  have mx: "max 0 (of_int x :: rat) = of_int (max 0 x)" for x
    by (simp add: max_def)
  have mn: "max 0 (- of_int x :: rat) = of_int (max 0 (- x))" for x
    by (simp add: max_def)
  have "\<forall>r \<in> set rs. \<bar>max 0 (k r)\<bar> \<le> \<bar>k r\<bar>"
    by (simp add: max_def)
  from e [OF this] have "exact (map (\<lambda>r. max 0 (rat_of (amount r))) rs)"
    by (simp only: m [of "\<lambda>x. max 0 x"] mx)
  from long_exact [OF fin this] show "longExposure rs = whole (\<Sum>r\<leftarrow>rs. max 0 (k r))"
    by (simp only: m [of "\<lambda>x. max 0 x"] mx sum_whole whole_def)
  have "\<forall>r \<in> set rs. \<bar>max 0 (- k r)\<bar> \<le> \<bar>k r\<bar>"
    by (simp add: max_def)
  from e [OF this] have "exact (map (\<lambda>r. max 0 (- rat_of (amount r))) rs)"
    by (simp only: m [of "\<lambda>x. max 0 (- x)"] mn)
  from short_exact [OF fin this] show "shortExposure rs = whole (\<Sum>r\<leftarrow>rs. max 0 (- k r))"
    by (simp only: m [of "\<lambda>x. max 0 (- x)"] mn sum_whole whole_def)
qed

lemma exposures_of_amounts:
  "gross rs = foldl (\<lambda>s a. dadd s (dabs (if truthy a then a else Finite 0))) (Finite 0) (map amount rs)"
  "net rs = foldl (\<lambda>s a. dadd s (if truthy a then a else Finite 0)) (Finite 0) (map amount rs)"
  "longExposure rs =
     foldl (\<lambda>s a. dadd s (if positive (if truthy a then a else Finite 0) then a else Finite 0))
       (Finite 0) (map amount rs)"
  "shortExposure rs =
     foldl (\<lambda>s a. dadd s (if negative (if truthy a then a else Finite 0) then dabs a else Finite 0))
       (Finite 0) (map amount rs)"
  by (simp_all add: gross_def net_def longExposure_def shortExposure_def num_def foldl_map)

lemma defaults_exposures:
  assumes "map amount rs = [whole 1000000, whole (- 1000000)]"
  shows "gross rs = whole 2000000 \<and> net rs = whole 0 \<and> longExposure rs = whole 1000000 \<and>
         shortExposure rs = whole 1000000"
proof -
  have t: "truthy (whole 1000000)" "truthy (whole (- 1000000))"
    "positive (whole 1000000)" "\<not> positive (whole (- 1000000))"
    "negative (whole (- 1000000))" "\<not> negative (whole 1000000)"
    "dabs (whole 1000000) = whole 1000000" "dabs (whole (- 1000000)) = whole 1000000"
    by (simp_all add: whole_def)
  have s: "dadd (Finite 0) (whole 1000000) = whole 1000000"
    "dadd (Finite 0) (Finite 0) = Finite 0"
    "dadd (whole 1000000) (whole 1000000) = whole 2000000"
    "dadd (whole 1000000) (whole (- 1000000)) = whole 0"
    "dadd (whole 1000000) (Finite 0) = whole 1000000"
    using dadd_whole [of 0 1000000] dadd_whole [of 0 0] dadd_whole [of 1000000 1000000]
      dadd_whole [of 1000000 "- 1000000"] dadd_whole [of 1000000 0]
    by (simp_all add: whole_def)
  show ?thesis
    unfolding exposures_of_amounts assms by (simp only: foldl.simps t s if_True if_False simp_thms)
qed

text \<open>
  C7, as stated: for every list of rows, gross is the sum of the absolute amounts (and
  net, long and short the sums of the amounts, of the positive and of the absolute
  negative ones). The code adds doubles: with the amounts 9007199254740991 and 2 the
  second addition rounds, and gross is 9007199254740992, one less than the sum.
\<close>

theorem exposures_rounded:
  "gross [mk_row ''a'' None 9007199254740991, mk_row ''b'' None 2] = whole 9007199254740992 \<and>
   gross [mk_row ''a'' None 9007199254740991, mk_row ''b'' None 2] \<noteq>
     whole (\<bar>9007199254740991\<bar> + \<bar>2\<bar>)"
proof -
  have a: "dround 9007199254740991 = Finite 9007199254740991"
    using is_double_whole [of 9007199254740991] by (simp add: is_double_def)
  have b: "dround 9007199254740993 = Finite 9007199254740992"
    by code_simp
  show ?thesis
    by (simp add: gross_def mk_row_def num_def whole_def a b)
qed

text \<open>
  C7, amended: the exposures are functions of the rows alone, sums from the left in the
  arithmetic of doubles. For finite amounts they are the exact sums (of the absolute
  amounts, of the amounts, of the positive amounts, of the absolute values of the negative
  ones) whenever no partial sum needs rounding, that is, whenever every partial sum is a
  double; this is so in particular when every amount is a whole number and the absolute
  amounts add up to at most \<open>2^53\<close>. For the two default rows, resolved to any two
  symbols, they are 2,000,000, 0, 1,000,000 and 1,000,000.
\<close>

theorem exposures:
  "((\<forall>r \<in> set rs. is_finite (amount r)) \<longrightarrow>
      (exact (map (\<lambda>r. \<bar>rat_of (amount r)\<bar>) rs) \<longrightarrow>
         gross rs = Finite (\<Sum>r\<leftarrow>rs. \<bar>rat_of (amount r)\<bar>)) \<and>
      (exact (map (\<lambda>r. rat_of (amount r)) rs) \<longrightarrow>
         net rs = Finite (\<Sum>r\<leftarrow>rs. rat_of (amount r))) \<and>
      (exact (map (\<lambda>r. max 0 (rat_of (amount r))) rs) \<longrightarrow>
         longExposure rs = Finite (\<Sum>r\<leftarrow>rs. max 0 (rat_of (amount r)))) \<and>
      (exact (map (\<lambda>r. max 0 (- rat_of (amount r))) rs) \<longrightarrow>
         shortExposure rs = Finite (\<Sum>r\<leftarrow>rs. max 0 (- rat_of (amount r))))) \<and>
   ((\<forall>r \<in> set rs. amount r = whole (k r)) \<and> (\<Sum>r\<leftarrow>rs. \<bar>k r\<bar>) \<le> 2 ^ 53 \<longrightarrow>
      gross rs = whole (\<Sum>r\<leftarrow>rs. \<bar>k r\<bar>) \<and>
      net rs = whole (\<Sum>r\<leftarrow>rs. k r) \<and>
      longExposure rs = whole (\<Sum>r\<leftarrow>rs. max 0 (k r)) \<and>
      shortExposure rs = whole (\<Sum>r\<leftarrow>rs. max 0 (- k r))) \<and>
   (let rs0 = updateRow u2 (no_patch\<lparr>p_resolvedSymbol := Some (Some b)\<rparr>)
               (updateRow u1 (no_patch\<lparr>p_resolvedSymbol := Some (Some a)\<rparr>)
                  (rows_init u1 u2))
    in gross rs0 = whole 2000000 \<and> net rs0 = whole 0 \<and> longExposure rs0 = whole 1000000 \<and>
       shortExposure rs0 = whole 1000000)"
proof -
  have general: "(\<forall>r \<in> set rs. is_finite (amount r)) \<longrightarrow>
      (exact (map (\<lambda>r. \<bar>rat_of (amount r)\<bar>) rs) \<longrightarrow>
         gross rs = Finite (\<Sum>r\<leftarrow>rs. \<bar>rat_of (amount r)\<bar>)) \<and>
      (exact (map (\<lambda>r. rat_of (amount r)) rs) \<longrightarrow>
         net rs = Finite (\<Sum>r\<leftarrow>rs. rat_of (amount r))) \<and>
      (exact (map (\<lambda>r. max 0 (rat_of (amount r))) rs) \<longrightarrow>
         longExposure rs = Finite (\<Sum>r\<leftarrow>rs. max 0 (rat_of (amount r)))) \<and>
      (exact (map (\<lambda>r. max 0 (- rat_of (amount r))) rs) \<longrightarrow>
         shortExposure rs = Finite (\<Sum>r\<leftarrow>rs. max 0 (- rat_of (amount r))))"
    using gross_exact [of rs] net_exact [of rs] long_exact [of rs] short_exact [of rs]
    by blast
  have wholes: "(\<forall>r \<in> set rs. amount r = whole (k r)) \<and> (\<Sum>r\<leftarrow>rs. \<bar>k r\<bar>) \<le> 2 ^ 53 \<longrightarrow>
      gross rs = whole (\<Sum>r\<leftarrow>rs. \<bar>k r\<bar>) \<and>
      net rs = whole (\<Sum>r\<leftarrow>rs. k r) \<and>
      longExposure rs = whole (\<Sum>r\<leftarrow>rs. max 0 (k r)) \<and>
      shortExposure rs = whole (\<Sum>r\<leftarrow>rs. max 0 (- k r))"
    using exposures_whole [of rs k] by blast
  have am: "map amount (updateRow i (no_patch\<lparr>p_resolvedSymbol := Some v\<rparr>) xs) = map amount xs"
    for i v xs
    by (induction xs) (simp_all add: updateRow_def spread_def no_patch_def)
  have "map amount (updateRow u2 (no_patch\<lparr>p_resolvedSymbol := Some (Some b)\<rparr>)
               (updateRow u1 (no_patch\<lparr>p_resolvedSymbol := Some (Some a)\<rparr>)
                  (rows_init u1 u2))) = [whole 1000000, whole (- 1000000)]"
    by (simp only: am) (simp add: rows_init_def)
  from defaults_exposures [OF this]
  have defaults: "let rs0 = updateRow u2 (no_patch\<lparr>p_resolvedSymbol := Some (Some b)\<rparr>)
               (updateRow u1 (no_patch\<lparr>p_resolvedSymbol := Some (Some a)\<rparr>)
                  (rows_init u1 u2))
    in gross rs0 = whole 2000000 \<and> net rs0 = whole 0 \<and> longExposure rs0 = whole 1000000 \<and>
       shortExposure rs0 = whole 1000000"
    by (simp only: Let_def)
  from general wholes defaults show ?thesis by blast
qed

theorem exposures_witness:
  "is_finite (amount (rows_init ''a'' ''b'' ! 0)) \<and> is_finite (amount (rows_init ''a'' ''b'' ! 1)) \<and>
   exact (map (\<lambda>r. \<bar>rat_of (amount r)\<bar>) (rows_init ''a'' ''b'')) \<and>
   amount (rows_init ''a'' ''b'' ! 0) = whole 1000000 \<and>
   amount (rows_init ''a'' ''b'' ! 1) = whole (- 1000000) \<and>
   gross (rows_init ''a'' ''b'') = Finite 2000000 \<and>
   gross (rows_init ''a'' ''b'') = whole 2000000 \<and> net (rows_init ''a'' ''b'') = whole 0 \<and>
   longExposure (rows_init ''a'' ''b'') = whole 1000000 \<and>
   shortExposure (rows_init ''a'' ''b'') = whole 1000000"
proof -
  have f: "\<forall>r \<in> set (rows_init ''a'' ''b''). is_finite (amount r)"
    by (simp add: rows_init_def whole_def)
  have d: "is_double 1000000" "is_double 2000000"
    using is_double_whole [of 1000000] is_double_whole [of 2000000] by simp_all
  have e: "exact (map (\<lambda>r. \<bar>rat_of (amount r)\<bar>) (rows_init ''a'' ''b''))"
    by (simp add: rows_init_def whole_def exact_def d)
  have w: "\<forall>r \<in> set (rows_init ''a'' ''b'').
      amount r = whole (if row_id r = ''a'' then 1000000 else - 1000000)"
    by (simp add: rows_init_def)
  have s: "(\<Sum>r\<leftarrow>rows_init ''a'' ''b''. \<bar>if row_id r = ''a'' then 1000000 else - 1000000 :: int\<bar>)
      \<le> 2 ^ 53"
    by (simp add: rows_init_def)
  note main = exposures [of "rows_init ''a'' ''b''"
      "\<lambda>r. if row_id r = ''a'' then 1000000 else - 1000000"]
  from main f e have "gross (rows_init ''a'' ''b'') =
      Finite (\<Sum>r\<leftarrow>rows_init ''a'' ''b''. \<bar>rat_of (amount r)\<bar>)"
    by blast
  then have g1: "gross (rows_init ''a'' ''b'') = Finite 2000000"
    by (simp add: rows_init_def whole_def)
  from main w s have
    "gross (rows_init ''a'' ''b'') =
       whole (\<Sum>r\<leftarrow>rows_init ''a'' ''b''. \<bar>if row_id r = ''a'' then 1000000 else - 1000000\<bar>) \<and>
     net (rows_init ''a'' ''b'') =
       whole (\<Sum>r\<leftarrow>rows_init ''a'' ''b''. if row_id r = ''a'' then 1000000 else - 1000000) \<and>
     longExposure (rows_init ''a'' ''b'') =
       whole (\<Sum>r\<leftarrow>rows_init ''a'' ''b''. max 0 (if row_id r = ''a'' then 1000000 else - 1000000)) \<and>
     shortExposure (rows_init ''a'' ''b'') =
       whole (\<Sum>r\<leftarrow>rows_init ''a'' ''b''. max 0 (- (if row_id r = ''a'' then 1000000 else - 1000000)))"
    by blast
  then have g2: "gross (rows_init ''a'' ''b'') = whole 2000000 \<and> net (rows_init ''a'' ''b'') = whole 0 \<and>
   longExposure (rows_init ''a'' ''b'') = whole 1000000 \<and>
   shortExposure (rows_init ''a'' ''b'') = whole 1000000"
    by (simp add: rows_init_def)
  have i: "is_finite (amount (rows_init ''a'' ''b'' ! 0))" "is_finite (amount (rows_init ''a'' ''b'' ! 1))"
    "amount (rows_init ''a'' ''b'' ! 0) = whole 1000000"
    "amount (rows_init ''a'' ''b'' ! 1) = whole (- 1000000)"
    by (simp_all add: rows_init_def whole_def)
  from i e g1 g2 show ?thesis by blast
qed

subsection \<open>At least two rows\<close>











section \<open>Properties of the analysis submission\<close>

lemma runAnalysis_no_positions:
  assumes "\<not> (\<exists>r \<in> set (rows st). resolved r \<and> num r \<noteq> Finite 0)"
  shows "runAnalysis f st =
           st\<lparr>runError := Some ''Please add at least one position with a resolved ticker and amount.'',
              html := [], analysisSaved := False, validityData := None\<rparr>"
proof -
  from assms have "filter (\<lambda>r. resolved r \<and> num r \<noteq> Finite 0) (rows st) = []"
    by (auto simp: filter_empty_conv)
  then show ?thesis by (simp add: runAnalysis_def)
qed

lemma runAnalysis_missing_ticker:
  assumes "\<exists>r \<in> set (rows st). resolved r \<and> num r \<noteq> Finite 0"
      and "\<exists>r \<in> set (rows st). num r \<noteq> Finite 0 \<and> \<not> resolved r"
  shows "runAnalysis f st =
           st\<lparr>runError := Some ''One or more positions has an amount but no selected ticker.'',
              html := [], analysisSaved := False, validityData := None\<rparr>"
proof -
  from assms(1) have ne: "filter (\<lambda>r. resolved r \<and> num r \<noteq> Finite 0) (rows st) \<noteq> []"
    by (auto simp: filter_empty_conv)
  from assms(2) have "find (\<lambda>r. num r \<noteq> Finite 0 \<and> \<not> resolved r) (rows st) \<noteq> None"
    by (auto simp: find_None_iff)
  then obtain bad where "find (\<lambda>r. num r \<noteq> Finite 0 \<and> \<not> resolved r) (rows st) = Some bad"
    by blast
  with ne show ?thesis by (simp add: runAnalysis_def)
qed

lemma runAnalysis_submits:
  assumes "\<exists>r \<in> set (rows st). resolved r \<and> num r \<noteq> Finite 0"
      and "\<not> (\<exists>r \<in> set (rows st). num r \<noteq> Finite 0 \<and> \<not> resolved r)"
  shows "runAnalysis f st =
           runAnalysis_settled f
             (st\<lparr>runError := None, html := [], analysisSaved := False, validityData := None,
                 running := True,
                 sent := sent st @ [Analyze \<lparr>portfolio_name = portfolioName st,
                          analysis_period_days = (if days st \<noteq> 0 then days st else 180),
                          include_ai_memo = includeAiMemo st,
                          positions = currentPositions (rows st)\<rparr>]\<rparr>)"
proof -
  from assms(1) have ne: "filter (\<lambda>r. resolved r \<and> num r \<noteq> Finite 0) (rows st) \<noteq> []"
    by (auto simp: filter_empty_conv)
  from assms(2) have "find (\<lambda>r. num r \<noteq> Finite 0 \<and> \<not> resolved r) (rows st) = None"
    by (simp add: find_None_iff)
  with ne show ?thesis by (simp add: runAnalysis_def currentPositions_def)
qed

lemma runAnalysis_settled_sent: "sent (runAnalysis_settled f st) = sent st"
  by (simp add: runAnalysis_settled_def split: sum.splits)

text \<open>
  C4, as stated: when some row has a nonzero amount but no resolved symbol,
  \<open>runAnalysis\<close> sets the message about the missing ticker. The check for positions
  comes first: in the initial state both rows have an amount and no symbol, and the
  message set is the one about the missing positions.
\<close>

theorem runAnalysis_unresolved_rows:
  "num (rows (app_init ''a'' ''b'') ! 0) \<noteq> Finite 0 \<and>
   \<not> resolved (rows (app_init ''a'' ''b'') ! 0) \<and>
   runError (runAnalysis (Fails None) (app_init ''a'' ''b'')) =
     Some ''Please add at least one position with a resolved ticker and amount.'' \<and>
   runError (runAnalysis (Fails None) (app_init ''a'' ''b'')) \<noteq>
     Some ''One or more positions has an amount but no selected ticker.''"
  by (simp add: runAnalysis_def app_init_def rows_init_def resolved_def num_def whole_def)

text \<open>
  C4, amended: \<open>runAnalysis\<close> posts to \<open>/analyze\<close> if and only if validation passes.
  When no row has both a resolved symbol and a nonzero amount, it sets the message about
  the missing positions and issues no request, whether or not some row has an amount
  without a symbol. When some row has both, and some row has a nonzero amount but no
  resolved symbol, it sets the message about the missing ticker and issues no request.
  Otherwise it submits the list of positions, and that request is the only one.
\<close>

theorem runAnalysis_validation:
  "((\<not> (\<exists>r \<in> set (rows st). resolved r \<and> num r \<noteq> Finite 0)) \<longrightarrow>
      runError (runAnalysis f st) =
        Some ''Please add at least one position with a resolved ticker and amount.'' \<and>
      sent (runAnalysis f st) = sent st) \<and>
   ((\<exists>r \<in> set (rows st). resolved r \<and> num r \<noteq> Finite 0) \<and>
    (\<exists>r \<in> set (rows st). num r \<noteq> Finite 0 \<and> \<not> resolved r) \<longrightarrow>
      runError (runAnalysis f st) =
        Some ''One or more positions has an amount but no selected ticker.'' \<and>
      sent (runAnalysis f st) = sent st) \<and>
   ((\<exists>r \<in> set (rows st). resolved r \<and> num r \<noteq> Finite 0) \<and>
    \<not> (\<exists>r \<in> set (rows st). num r \<noteq> Finite 0 \<and> \<not> resolved r) \<longrightarrow>
      sent (runAnalysis f st) =
        sent st @ [Analyze \<lparr>portfolio_name = portfolioName st,
                           analysis_period_days = (if days st \<noteq> 0 then days st else 180),
                           include_ai_memo = includeAiMemo st,
                           positions = currentPositions (rows st)\<rparr>])"
proof (intro conjI impI)
  assume a: "\<not> (\<exists>r \<in> set (rows st). resolved r \<and> num r \<noteq> Finite 0)"
  show "runError (runAnalysis f st) =
        Some ''Please add at least one position with a resolved ticker and amount.''"
    by (simp add: runAnalysis_no_positions [OF a])
  show "sent (runAnalysis f st) = sent st"
    by (simp add: runAnalysis_no_positions [OF a])
next
  assume a: "(\<exists>r \<in> set (rows st). resolved r \<and> num r \<noteq> Finite 0) \<and>
    (\<exists>r \<in> set (rows st). num r \<noteq> Finite 0 \<and> \<not> resolved r)"
  then have e: "runAnalysis f st =
           st\<lparr>runError := Some ''One or more positions has an amount but no selected ticker.'',
              html := [], analysisSaved := False, validityData := None\<rparr>"
    using runAnalysis_missing_ticker by blast
  show "runError (runAnalysis f st) =
        Some ''One or more positions has an amount but no selected ticker.''"
    by (simp add: e)
  show "sent (runAnalysis f st) = sent st"
    by (simp add: e)
next
  assume a: "(\<exists>r \<in> set (rows st). resolved r \<and> num r \<noteq> Finite 0) \<and>
    \<not> (\<exists>r \<in> set (rows st). num r \<noteq> Finite 0 \<and> \<not> resolved r)"
  then have e: "runAnalysis f st =
           runAnalysis_settled f
             (st\<lparr>runError := None, html := [], analysisSaved := False, validityData := None,
                 running := True,
                 sent := sent st @ [Analyze \<lparr>portfolio_name = portfolioName st,
                          analysis_period_days = (if days st \<noteq> 0 then days st else 180),
                          include_ai_memo = includeAiMemo st,
                          positions = currentPositions (rows st)\<rparr>]\<rparr>)"
    using runAnalysis_submits by blast
  show "sent (runAnalysis f st) =
        sent st @ [Analyze \<lparr>portfolio_name = portfolioName st,
                           analysis_period_days = (if days st \<noteq> 0 then days st else 180),
                           include_ai_memo = includeAiMemo st,
                           positions = currentPositions (rows st)\<rparr>]"
    by (simp add: e runAnalysis_settled_sent)
qed

theorem runAnalysis_validation_witness:
  "runError (runAnalysis (Fails None) (with_rows [mk_row ''a'' (Some ''AAPL'') 0])) =
     Some ''Please add at least one position with a resolved ticker and amount.'' \<and>
   sent (runAnalysis (Fails None) (with_rows [mk_row ''a'' (Some ''AAPL'') 0])) = [] \<and>
   runError (runAnalysis (Fails None)
       (with_rows [mk_row ''a'' (Some ''AAPL'') 100, mk_row ''b'' None 50])) =
     Some ''One or more positions has an amount but no selected ticker.'' \<and>
   sent (runAnalysis (Fails None)
       (with_rows [mk_row ''a'' (Some ''AAPL'') 100, mk_row ''b'' None 50])) = [] \<and>
   sent (runAnalysis (Fails None)
       (with_rows [mk_row ''a'' (Some ''AAPL'') 100, mk_row ''b'' (Some ''MSFT'') (- 100)])) =
     [Analyze \<lparr>portfolio_name = ''Long/Short Portfolio'', analysis_period_days = 180,
               include_ai_memo = True,
               positions = [\<lparr>ticker = ''AAPL'', position_amount = whole 100\<rparr>,
                            \<lparr>ticker = ''MSFT'', position_amount = whole (- 100)\<rparr>]\<rparr>]"
  using runAnalysis_validation [of "with_rows [mk_row ''a'' (Some ''AAPL'') 0]" "Fails None"]
    runAnalysis_validation [of "with_rows [mk_row ''a'' (Some ''AAPL'') 100, mk_row ''b'' None 50]"
      "Fails None"]
    runAnalysis_validation [of
      "with_rows [mk_row ''a'' (Some ''AAPL'') 100, mk_row ''b'' (Some ''MSFT'') (- 100)]"
      "Fails None"]
  by (simp add: with_rows_def mk_row_def app_init_def resolved_def currentPositions_def num_def
      whole_def)

lemma hasPositions_iff: "hasPositions rs = (\<exists>r \<in> set rs. resolved r \<and> num r \<noteq> Finite 0)"
  by (simp add: hasPositions_def list_ex_iff)

lemma allResolved_iff: "allResolved rs = (\<not> (\<exists>r \<in> set rs. num r \<noteq> Finite 0 \<and> \<not> resolved r))"
  by (auto simp: allResolved_def list_all_iff)

text \<open>
  C5. When the rows pass validation and the response to the request has a status outside
  200..299, the message shown depends on the status: 401 gives the message about the
  expired session, 429 the one about the rate limit, any other status the generic message
  followed by the body of the response, or by \<open>HTTP\<close> and the status when the body is
  empty or cannot be read. No report and no validity data is stored, the run is over, and
  the request was sent once.
\<close>

theorem runAnalysis_failure:
  assumes "hasPositions (rows st)" and "allResolved (rows st)" and "\<not> ok (status res)"
  shows "runError (runAnalysis (Responds res) st) =
           Some (if status res = 401 then ''Session expired. Please refresh.''
                 else if status res = 429 then ''Rate limit exceeded. Please wait.''
                 else ''Analysis failed: '' @
                        (case body_text res of
                           None \<Rightarrow> ''HTTP '' @ show_nat (status res)
                         | Some txt \<Rightarrow> if txt = [] then ''HTTP '' @ show_nat (status res) else txt)) \<and>
         html (runAnalysis (Responds res) st) = [] \<and>
         validityData (runAnalysis (Responds res) st) = None \<and>
         \<not> running (runAnalysis (Responds res) st) \<and>
         sent (runAnalysis (Responds res) st) =
           sent st @ [Analyze \<lparr>portfolio_name = portfolioName st,
                           analysis_period_days = (if days st \<noteq> 0 then days st else 180),
                           include_ai_memo = includeAiMemo st,
                           positions = currentPositions (rows st)\<rparr>]"
proof -
  from assms(1,2) have e: "runAnalysis (Responds res) st =
           runAnalysis_settled (Responds res)
             (st\<lparr>runError := None, html := [], analysisSaved := False, validityData := None,
                 running := True,
                 sent := sent st @ [Analyze \<lparr>portfolio_name = portfolioName st,
                          analysis_period_days = (if days st \<noteq> 0 then days st else 180),
                          include_ai_memo = includeAiMemo st,
                          positions = currentPositions (rows st)\<rparr>]\<rparr>)"
    by (intro runAnalysis_submits) (simp_all add: hasPositions_iff allResolved_iff)
  have t: "runAnalysis_try (Responds res) =
     Inl (Some (if status res = 401 then ''Session expired. Please refresh.''
                 else if status res = 429 then ''Rate limit exceeded. Please wait.''
                 else ''Analysis failed: '' @
                        (case body_text res of
                           None \<Rightarrow> ''HTTP '' @ show_nat (status res)
                         | Some txt \<Rightarrow> if txt = [] then ''HTTP '' @ show_nat (status res) else txt)))"
    using assms(3) by (simp add: runAnalysis_try_def js_or_def split: option.splits)
  have ne: "js_or (Some (if status res = 401 then ''Session expired. Please refresh.''
                 else if status res = 429 then ''Rate limit exceeded. Please wait.''
                 else ''Analysis failed: '' @ x)) d = (if status res = 401 then ''Session expired. Please refresh.''
                 else if status res = 429 then ''Rate limit exceeded. Please wait.''
                 else ''Analysis failed: '' @ x)" for x d
    by (simp add: js_or_def)
  show ?thesis unfolding e runAnalysis_settled_def t by (simp add: ne)
qed

theorem runAnalysis_failure_witness:
  "hasPositions (rows (with_rows [mk_row ''a'' (Some ''AAPL'') 100])) \<and>
   allResolved (rows (with_rows [mk_row ''a'' (Some ''AAPL'') 100])) \<and>
   \<not> ok 500 \<and> \<not> ok 401 \<and>
   runError (runAnalysis (Responds \<lparr>status = 500, body_text = None, body_json = Inl None\<rparr>)
               (with_rows [mk_row ''a'' (Some ''AAPL'') 100])) =
     Some ''Analysis failed: HTTP 500'' \<and>
   runError (runAnalysis (Responds \<lparr>status = 401, body_text = Some ''no'', body_json = Inl None\<rparr>)
               (with_rows [mk_row ''a'' (Some ''AAPL'') 100])) =
     Some ''Session expired. Please refresh.'' \<and>
   html (runAnalysis (Responds \<lparr>status = 500, body_text = None, body_json = Inl None\<rparr>)
               (with_rows [mk_row ''a'' (Some ''AAPL'') 100])) = []"
proof -
  have h: "hasPositions (rows (with_rows [mk_row ''a'' (Some ''AAPL'') 100]))"
    by (simp add: with_rows_def mk_row_def hasPositions_def resolved_def num_def whole_def)
  have a: "allResolved (rows (with_rows [mk_row ''a'' (Some ''AAPL'') 100]))"
    by (simp add: with_rows_def mk_row_def allResolved_def resolved_def num_def whole_def)
  have n5: "\<not> ok (status \<lparr>status = 500, body_text = None, body_json = Inl None\<rparr>)"
    by (simp add: ok_def)
  have n4: "\<not> ok (status \<lparr>status = 401, body_text = Some ''no'', body_json = Inl None\<rparr>)"
    by (simp add: ok_def)
  have s: "show_nat 500 = ''500''"
    by (simp add: show_nat.simps digit_def)
  from runAnalysis_failure [OF h a n5] runAnalysis_failure [OF h a n4] h a n5 n4 s
  show ?thesis by simp
qed

section \<open>Properties of the ticker resolution\<close>



lemma trim_MSFT: "trim ''MSFT'' = ''MSFT''"
  by (simp add: trim_def js_space_def)



























subsection \<open>Clearing the query\<close>







end
